theory Spec2Isabelle
  imports Complex_Main "HOL-Library.Sublist" "HOL-Library.Code_Target_Nat"
begin

section \<open>Text\<close>

text \<open>
  A Python \<^verbatim>\<open>str\<close> is a sequence of Unicode code points, so text is a list of code
  points. \<open>str\<close> turns an ASCII literal into such a list; the non-ASCII characters of
  the source are written by their code point: \<^verbatim>\<open>U+00B2\<close> (superscript two) is 178,
  \<^verbatim>\<open>U+00F1\<close> is 241, \<^verbatim>\<open>U+00F3\<close> is 243, \<^verbatim>\<open>U+00FA\<close> is 250 and the euro sign
  \<^verbatim>\<open>U+20AC\<close> is 8364.
\<close>

type_synonym ustr = "nat list"

definition str :: "string \<Rightarrow> ustr" where
  "str s = map of_char s"

text \<open>
  The character classes of \<^verbatim>\<open>re\<close> on \<^verbatim>\<open>str\<close> patterns and the case mapping of
  \<^verbatim>\<open>str.lower\<close> follow the Unicode database. They are given here for Basic Latin and
  the Latin-1 Supplement (code points below 256), the white space class for every code
  point. A code point from 256 on is taken to be a caseless symbol that is neither a
  digit nor a word character, which is what the euro sign is; decimal digits and letters
  of other scripts are outside this model.
\<close>

definition is_digit :: "nat \<Rightarrow> bool" where
  "is_digit c = (48 \<le> c \<and> c \<le> 57)"

definition is_space :: "nat \<Rightarrow> bool" where
  "is_space c =
     ((9 \<le> c \<and> c \<le> 13) \<or> (28 \<le> c \<and> c \<le> 32) \<or> c = 133 \<or> c = 160 \<or> c = 5760 \<or>
      (8192 \<le> c \<and> c \<le> 8202) \<or> c = 8232 \<or> c = 8233 \<or> c = 8239 \<or> c = 8287 \<or> c = 12288)"

definition is_word :: "nat \<Rightarrow> bool" where
  "is_word c =
     (is_digit c \<or> (65 \<le> c \<and> c \<le> 90) \<or> c = 95 \<or> (97 \<le> c \<and> c \<le> 122) \<or>
      c = 170 \<or> c = 178 \<or> c = 179 \<or> c = 181 \<or> c = 185 \<or> c = 186 \<or>
      (188 \<le> c \<and> c \<le> 190) \<or> (192 \<le> c \<and> c \<le> 214) \<or> (216 \<le> c \<and> c \<le> 246) \<or>
      (248 \<le> c \<and> c \<le> 255))"

definition lower_cp :: "nat \<Rightarrow> nat" where
  "lower_cp c =
     (if 65 \<le> c \<and> c \<le> 90 then c + 32
      else if 192 \<le> c \<and> c \<le> 222 \<and> c \<noteq> 215 then c + 32
      else c)"

definition lower :: "ustr \<Rightarrow> ustr" where
  "lower s = map lower_cp s"

text \<open>\<^verbatim>\<open>s.strip()\<close>: leading and trailing white space removed.\<close>

definition strip :: "ustr \<Rightarrow> ustr" where
  "strip s = rev (dropWhile is_space (rev (dropWhile is_space s)))"

text \<open>\<^verbatim>\<open>s.replace(old, new)\<close> for a one-character \<^verbatim>\<open>old\<close>, as the price columns use it.\<close>

definition replace_chr :: "nat \<Rightarrow> ustr \<Rightarrow> ustr \<Rightarrow> ustr" where
  "replace_chr old new s = concat (map (\<lambda>c. if c = old then new else [c]) s)"

section \<open>Python values and errors\<close>

text \<open>
  The values a cell of a DataFrame, an entry of a dictionary or an element of a list
  holds. \<open>PNone\<close> is the absent value (\<^verbatim>\<open>None\<close>, and \<^verbatim>\<open>NaN\<close> as pandas' missing
  value). \<open>PList\<close> is a Python list and \<open>PArray\<close> a one-dimensional
  \<^verbatim>\<open>numpy.ndarray\<close>: a list stored to Parquet is read back as an array. A
  \<^verbatim>\<open>float64\<close> is modelled by the rational number it denotes; rounding to the nearest
  double is not modelled.
\<close>

datatype pyval =
    PNone
  | PBool bool
  | PInt int
  | PFloat rat
  | PStr ustr
  | PList "pyval list"
  | PArray "pyval list"
  | PDict "(ustr \<times> pyval) list"

datatype error =
    TypeError | ValueError | KeyError | IndexError | AttributeError | OverflowError

type_synonym dict = "(ustr \<times> pyval) list"

definition bind :: "error + 'a \<Rightarrow> ('a \<Rightarrow> error + 'b) \<Rightarrow> error + 'b" where
  "bind m f = (case m of Inl e \<Rightarrow> Inl e | Inr x \<Rightarrow> f x)"

text \<open>
  Iteration (\<^verbatim>\<open>for item in x\<close>) and \<^verbatim>\<open>sep.join(x)\<close>. A string iterates over its
  characters, a dictionary over its keys; a value that is not iterable raises
  TypeError, and so does \<^verbatim>\<open>join\<close> on an item that is not text.
\<close>

fun iter_items :: "pyval \<Rightarrow> error + pyval list" where
  "iter_items (PList xs) = Inr xs"
| "iter_items (PArray xs) = Inr xs"
| "iter_items (PStr s) = Inr (map (\<lambda>c. PStr [c]) s)"
| "iter_items (PDict kvs) = Inr (map (\<lambda>kv. PStr (fst kv)) kvs)"
| "iter_items _ = Inl TypeError"

fun text_items :: "pyval list \<Rightarrow> error + ustr list" where
  "text_items [] = Inr []"
| "text_items (PStr s # xs) = bind (text_items xs) (\<lambda>ss. Inr (s # ss))"
| "text_items (_ # xs) = Inl TypeError"

fun join_items :: "ustr \<Rightarrow> ustr list \<Rightarrow> ustr" where
  "join_items sep [] = []"
| "join_items sep [s] = s"
| "join_items sep (s # t # ss) = s @ sep @ join_items sep (t # ss)"

definition join :: "ustr \<Rightarrow> pyval \<Rightarrow> error + ustr" where
  "join sep x = bind (iter_items x) (\<lambda>xs. bind (text_items xs) (\<lambda>ss. Inr (join_items sep ss)))"

text \<open>
  The truth value of a value, as \<^verbatim>\<open>if x:\<close> tests it. An array of more than one element
  has none (ValueError); an empty array counts as false.
\<close>

fun truthy :: "pyval \<Rightarrow> error + bool" where
  "truthy PNone = Inr False"
| "truthy (PBool b) = Inr b"
| "truthy (PInt i) = Inr (i \<noteq> 0)"
| "truthy (PFloat r) = Inr (r \<noteq> 0)"
| "truthy (PStr s) = Inr (s \<noteq> [])"
| "truthy (PList xs) = Inr (xs \<noteq> [])"
| "truthy (PDict kvs) = Inr (kvs \<noteq> [])"
| "truthy (PArray []) = Inr False"
| "truthy (PArray [x]) = truthy x"
| "truthy (PArray (x # y # zs)) = Inl ValueError"

text \<open>
  \<^verbatim>\<open>int(x)\<close> on \<^verbatim>\<open>m.group(1)\<close>. \<^verbatim>\<open>int(None)\<close> raises TypeError. The text of a group
  is here always a run of digits matched by \<^verbatim>\<open>\d+\<close> or \<^verbatim>\<open>\d{4}\<close>, so the other
  literal forms \<^verbatim>\<open>int\<close> accepts (a sign, blanks, underscores) are not reproduced.
\<close>

definition digits_value :: "ustr \<Rightarrow> int" where
  "digits_value s = foldl (\<lambda>n c. 10 * n + int (c - 48)) 0 s"

fun py_int :: "ustr option \<Rightarrow> error + int" where
  "py_int None = Inl TypeError"
| "py_int (Some s) =
     (if s \<noteq> [] \<and> list_all is_digit s then Inr (digits_value s) else Inl ValueError)"

fun map_err :: "('a \<Rightarrow> error + 'b) \<Rightarrow> 'a list \<Rightarrow> error + 'b list" where
  "map_err f [] = Inr []"
| "map_err f (x # xs) = bind (f x) (\<lambda>y. bind (map_err f xs) (\<lambda>ys. Inr (y # ys)))"

section \<open>Regular expressions\<close>

text \<open>
  The patterns of the source use literals, the classes \<^verbatim>\<open>\d\<close>, \<^verbatim>\<open>\s\<close> and
  \<^verbatim>\<open>\w\<close>, a bracketed set, the greedy quantifiers \<^verbatim>\<open>?\<close>, \<^verbatim>\<open>*\<close>, \<^verbatim>\<open>+\<close> and
  \<^verbatim>\<open>{n}\<close>, and at most one capturing group. \<open>matches r s g\<close> lists, in the order
  the backtracking matcher of \<^verbatim>\<open>re\<close> tries them, the ways \<open>r\<close> matches at the start
  of \<open>s\<close>: each is the rest of the input after the match together with the text of
  group 1, if the group took part (\<open>g\<close> is the group on entry).
\<close>

datatype cclass = Digit | Space | Word

datatype regex =
    Lit ustr
  | Cls cclass
  | AnyOf "cclass list" ustr
  | Seq regex regex
  | Opt regex
  | Star regex
  | Plus regex
  | Rep nat regex
  | Group regex

fun in_class :: "cclass \<Rightarrow> nat \<Rightarrow> bool" where
  "in_class Digit c = is_digit c"
| "in_class Space c = is_space c"
| "in_class Word c = is_word c"

fun rsize :: "regex \<Rightarrow> nat" where
  "rsize (Seq a b) = Suc (rsize a + rsize b)"
| "rsize (Opt r) = Suc (rsize r)"
| "rsize (Star r) = Suc (rsize r)"
| "rsize (Plus r) = Suc (Suc (rsize r))"
| "rsize (Rep n r) = Suc (n + rsize r)"
| "rsize (Group r) = Suc (rsize r)"
| "rsize _ = 0"

type_synonym mstate = "ustr \<times> ustr option"

function (sequential) matches :: "regex \<Rightarrow> ustr \<Rightarrow> ustr option \<Rightarrow> mstate list" where
  "matches (Lit w) s g = (if prefix w s then [(drop (length w) s, g)] else [])"
| "matches (Cls k) s g =
     (case s of [] \<Rightarrow> [] | c # cs \<Rightarrow> if in_class k c then [(cs, g)] else [])"
| "matches (AnyOf ks cs) s g =
     (case s of [] \<Rightarrow> []
      | c # r \<Rightarrow> if list_ex (\<lambda>k. in_class k c) ks \<or> c \<in> set cs then [(r, g)] else [])"
| "matches (Seq a b) s g = concat (map (\<lambda>(s', g'). matches b s' g') (matches a s g))"
| "matches (Opt r) s g = matches r s g @ [(s, g)]"
| "matches (Star r) s g =
     concat (map (\<lambda>(s', g'). if length s' < length s then matches (Star r) s' g' else [])
                 (matches r s g)) @ [(s, g)]"
| "matches (Plus r) s g = concat (map (\<lambda>(s', g'). matches (Star r) s' g') (matches r s g))"
| "matches (Rep 0 r) s g = [(s, g)]"
| "matches (Rep (Suc n) r) s g =
     concat (map (\<lambda>(s', g'). matches (Rep n r) s' g') (matches r s g))"
| "matches (Group r) s g =
     map (\<lambda>(s', _). (s', Some (take (length s - length s') s))) (matches r s g)"
  by pat_completeness auto
termination
  by (relation "measures [\<lambda>(r, s, g). rsize r, \<lambda>(r, s, g). length s]") auto

text \<open>
  \<^verbatim>\<open>pattern.search(s)\<close>: the first match at the leftmost position that has one. The
  result is \<open>None\<close> when there is no match, and otherwise the match object, of which
  only \<^verbatim>\<open>group(1)\<close> is kept (\<open>None\<close> when the group did not take part).
\<close>

fun search :: "regex \<Rightarrow> ustr \<Rightarrow> ustr option option" where
  "search r s =
     (case matches r s None of
        (_, g) # _ \<Rightarrow> Some g
      | [] \<Rightarrow> (case s of [] \<Rightarrow> None | _ # cs \<Rightarrow> search r cs))"

section \<open>Field extractors\<close>

text \<open>
  \<^verbatim>\<open>int(m.group(1)) if m else None\<close> and \<^verbatim>\<open>m.group(1) if m else None\<close>.
\<close>

fun int_group1 :: "ustr option option \<Rightarrow> error + pyval" where
  "int_group1 None = Inr PNone"
| "int_group1 (Some g) = bind (py_int g) (\<lambda>n. Inr (PInt n))"

fun str_group1 :: "ustr option option \<Rightarrow> pyval" where
  "str_group1 None = PNone"
| "str_group1 (Some None) = PNone"
| "str_group1 (Some (Some t)) = PStr t"

text \<open>\<^verbatim>\<open>m.group(1).strip() if m else None\<close>: \<^verbatim>\<open>None\<close> has no \<^verbatim>\<open>strip\<close>.\<close>

fun strip_group1 :: "ustr option option \<Rightarrow> error + pyval" where
  "strip_group1 None = Inr PNone"
| "strip_group1 (Some None) = Inl AttributeError"
| "strip_group1 (Some (Some t)) = Inr (PStr (strip t))"

definition extract_info_features :: "pyval \<Rightarrow> error + dict" where
  "extract_info_features info0 =
     bind (join (str '' '') info0) (\<lambda>joined.
     let info = lower joined;
         superficie_pattern =
           Seq (Group (Plus (Cls Digit))) (Seq (Star (Cls Space)) (Lit (str ''m'' @ [178])));
         habitaciones_pattern =
           Seq (Group (Plus (Cls Digit))) (Seq (Star (Cls Space)) (Lit (str ''hab'')));
         garaje_incluido_pattern = Lit (str ''garaje incluido'');
         con_garaje_pattern = Lit (str ''con garaje'');
         planta_pattern = Seq (Lit (str ''planta '')) (Group (Plus (Cls Digit)));
         con_ascensor_pattern = Lit (str ''con ascensor'');
         sin_ascensor_pattern = Lit (str ''sin ascensor'');
         superficie = search superficie_pattern info;
         habitaciones = search habitaciones_pattern info;
         garaje =
           (if search garaje_incluido_pattern info \<noteq> None \<or> search con_garaje_pattern info \<noteq> None
            then True else False);
         planta = search planta_pattern info;
         ascensor =
           (if search con_ascensor_pattern info \<noteq> None then PBool True
            else if search sin_ascensor_pattern info \<noteq> None then PBool False
            else PNone)
     in bind (int_group1 superficie) (\<lambda>v_superficie.
        bind (int_group1 habitaciones) (\<lambda>v_habitaciones.
        bind (int_group1 planta) (\<lambda>v_planta.
        Inr [(str ''superficie_m2'', v_superficie),
             (str ''habitaciones'', v_habitaciones),
             (str ''garaje'', PBool garaje),
             (str ''planta'', v_planta),
             (str ''ascensor'', ascensor)]))))"

text \<open>
  A dictionary is an association list with distinct keys, in insertion order;
  \<^verbatim>\<open>item.items()\<close> exists on a dictionary only (AttributeError otherwise).
\<close>

definition filter_item :: "pyval \<Rightarrow> error + dict" where
  "filter_item item =
     (case item of
        PDict kvs \<Rightarrow>
          Inr (filter (\<lambda>(key, val).
                 key \<in> set [str ''Consumo:'', str ''Emisiones:''] \<and> val \<noteq> PNone) kvs)
      | _ \<Rightarrow> Inl AttributeError)"

definition filter_energy_data :: "pyval \<Rightarrow> error + dict list" where
  "filter_energy_data data = bind (iter_items data) (\<lambda>items. map_err filter_item items)"

text \<open>
  One round of the loop of \<^verbatim>\<open>extract_certificado_energetico\<close>, on the four variables
  \<open>(consumo_valor, consumo_icono, emisiones_valor, emisiones_icono)\<close>. Indexing an
  array beyond its end raises IndexError.
\<close>

definition certificado_step ::
  "pyval \<times> pyval \<times> pyval \<times> pyval \<Rightarrow> dict \<Rightarrow> error + pyval \<times> pyval \<times> pyval \<times> pyval" where
  "certificado_step vars item =
     (case vars of (consumo_valor, consumo_icono, emisiones_valor, emisiones_icono) \<Rightarrow>
      bind
        (case map_of item (str ''Consumo:'') of
           None \<Rightarrow> Inr (consumo_valor, consumo_icono)
         | Some PNone \<Rightarrow> Inr (consumo_valor, consumo_icono)
         | Some (PArray consumo) \<Rightarrow>
             (case consumo of
                [] \<Rightarrow> Inl IndexError
              | c0 # rest \<Rightarrow>
                  bind (truthy c0) (\<lambda>t0.
                  let consumo_valor = (if t0 then c0 else consumo_valor) in
                  (case rest of
                     [] \<Rightarrow> Inl IndexError
                   | c1 # _ \<Rightarrow>
                       bind (truthy c1) (\<lambda>t1.
                       Inr (consumo_valor, if t1 then c1 else consumo_icono)))))
         | Some _ \<Rightarrow> Inr (consumo_valor, consumo_icono))
        (\<lambda>(consumo_valor, consumo_icono).
      bind
        (case map_of item (str ''Emisiones:'') of
           None \<Rightarrow> Inr (emisiones_valor, emisiones_icono)
         | Some PNone \<Rightarrow> Inr (emisiones_valor, emisiones_icono)
         | Some (PArray emisiones) \<Rightarrow>
             (case emisiones of
                [] \<Rightarrow> Inl IndexError
              | e0 # rest \<Rightarrow>
                  bind (truthy e0) (\<lambda>t0.
                  let emisiones_valor = (if t0 then e0 else emisiones_valor) in
                  (case rest of
                     [] \<Rightarrow> Inl IndexError
                   | e1 # _ \<Rightarrow>
                       bind (truthy e1) (\<lambda>t1.
                       Inr (emisiones_valor, if t1 then e1 else emisiones_icono)))))
         | Some _ \<Rightarrow> Inr (emisiones_valor, emisiones_icono))
        (\<lambda>(emisiones_valor, emisiones_icono).
      Inr (consumo_valor, consumo_icono, emisiones_valor, emisiones_icono))))"

fun certificado_loop ::
  "pyval \<times> pyval \<times> pyval \<times> pyval \<Rightarrow> dict list \<Rightarrow> error + pyval \<times> pyval \<times> pyval \<times> pyval" where
  "certificado_loop vars [] = Inr vars"
| "certificado_loop vars (item # items) =
     bind (certificado_step vars item) (\<lambda>vars'. certificado_loop vars' items)"

definition extract_certificado_energetico :: "pyval \<Rightarrow> error + dict" where
  "extract_certificado_energetico data =
     bind (filter_energy_data data) (\<lambda>certificado.
     bind (certificado_loop (PNone, PNone, PNone, PNone) certificado)
       (\<lambda>(consumo_valor, consumo_icono, emisiones_valor, emisiones_icono).
     Inr [(str ''consumo_energetico_valor'', consumo_valor),
          (str ''consumo_energetico_icono'', consumo_icono),
          (str ''emisiones_valor'', emisiones_valor),
          (str ''emisiones_icono'', emisiones_icono)]))"

definition extract_caracteristicas_basicas :: "pyval \<Rightarrow> error + dict" where
  "extract_caracteristicas_basicas caracteristicas_basicas0 =
     bind (join (str '' '') caracteristicas_basicas0) (\<lambda>joined.
     let caracteristicas_basicas = lower joined;
         digits = Group (Plus (Cls Digit));
         spaces = Star (Cls Space);
         superficie_pattern =
           Seq digits (Seq spaces (Lit (str ''m'' @ [178] @ str '' construidos'')));
         superficie_util_pattern =
           Seq digits (Seq spaces (Lit (str ''m'' @ [178] @ str '' '' @ [250] @ str ''tiles'')));
         habitaciones_pattern =
           Seq digits (Seq spaces (Seq (Lit (str ''habitac'')) (Opt (Lit (str ''i'')))));
         banos_pattern =
           Seq digits (Seq spaces (Seq (Lit (str ''ba'' @ [241] @ str ''o'')) (Opt (Lit (str ''s'')))));
         parcela_pattern =
           Seq (Lit (str ''parcela de '')) (Seq digits (Seq spaces (Lit (str ''m'' @ [178]))));
         terraza_pattern = Lit (str ''terraza'');
         balcon_pattern = Lit (str ''balc'' @ [243] @ str ''n'');
         garaje_pattern = Lit (str ''plaza de garaje incluida en el precio'');
         estado_pattern = Lit (str ''segunda mano/buen estado'');
         armarios_pattern = Lit (str ''armarios empotrados'');
         orientacion_pattern =
           Seq (Lit (str ''orientaci'' @ [243] @ str ''n ''))
               (Group (Seq (Plus (Cls Word)) (Star (Seq (Lit (str '', '')) (Plus (Cls Word))))));
         cocina_pattern = Lit (str ''cocina equipada'');
         casas_amueblada_pattern = Lit (str ''casa sin amueblar'');
         amueblado_pattern = Lit (str ''amueblado'');
         calefaccion_pattern =
           Seq (Lit (str ''calefacci'' @ [243] @ str ''n''))
               (Seq spaces (Group (Plus (AnyOf [Word, Space] (str '':'')))));
         trastero_pattern = Lit (str ''trastero'');
         construccion_pattern =
           Seq (Lit (str ''construido en '')) (Group (Rep 4 (Cls Digit)));
         plantas_pattern = Seq digits (Seq spaces (Lit (str ''plantas'')));
         superficie = search superficie_pattern caracteristicas_basicas;
         superficie_util = search superficie_util_pattern caracteristicas_basicas;
         habitaciones = search habitaciones_pattern caracteristicas_basicas;
         banos = search banos_pattern caracteristicas_basicas;
         parcela = search parcela_pattern caracteristicas_basicas;
         terraza = (search terraza_pattern caracteristicas_basicas \<noteq> None);
         balcon = (search balcon_pattern caracteristicas_basicas \<noteq> None);
         garaje = (search garaje_pattern caracteristicas_basicas \<noteq> None);
         estado = (search estado_pattern caracteristicas_basicas \<noteq> None);
         armarios = (search armarios_pattern caracteristicas_basicas \<noteq> None);
         orientacion = search orientacion_pattern caracteristicas_basicas;
         cocina = (search cocina_pattern caracteristicas_basicas \<noteq> None);
         amueblada =
           (search casas_amueblada_pattern caracteristicas_basicas \<noteq> None
            \<or> search amueblado_pattern caracteristicas_basicas \<noteq> None);
         calefaccion = search calefaccion_pattern caracteristicas_basicas;
         trastero = (search trastero_pattern caracteristicas_basicas \<noteq> None);
         construccion = search construccion_pattern caracteristicas_basicas;
         plantas = search plantas_pattern caracteristicas_basicas
     in bind (int_group1 superficie) (\<lambda>v_superficie.
        bind (int_group1 superficie_util) (\<lambda>v_superficie_util.
        bind (int_group1 habitaciones) (\<lambda>v_habitaciones.
        bind (int_group1 banos) (\<lambda>v_banos.
        bind (int_group1 parcela) (\<lambda>v_parcela.
        bind (strip_group1 calefaccion) (\<lambda>v_calefaccion.
        bind (int_group1 construccion) (\<lambda>v_construccion.
        bind (int_group1 plantas) (\<lambda>v_plantas.
        Inr [(str ''caracteristicas_basicas_superficie_m2'', v_superficie),
             (str ''superficie_util_m2'', v_superficie_util),
             (str ''caracteristicas_basicas_habitaciones'', v_habitaciones),
             (str ''caracteristicas_basicas_banos'', v_banos),
             (str ''parcela_m2'', v_parcela),
             (str ''terraza'', PBool terraza),
             (str ''balcon'', PBool balcon),
             (str ''garaje_incluido'', PBool garaje),
             (str ''segunda_mano_buen_estado'', PBool estado),
             (str ''armarios_empotrados'', PBool armarios),
             (str ''orientacion'', str_group1 orientacion),
             (str ''cocina_equipada'', PBool cocina),
             (str ''amueblada'', PBool amueblada),
             (str ''calefaccion'', v_calefaccion),
             (str ''trastero'', PBool trastero),
             (str ''construccion'', v_construccion),
             (str ''plantas'', v_plantas)])))))))))"

section \<open>DataFrames\<close>

text \<open>
  A DataFrame is its columns, in order, each a label and one cell per row. All frames
  of one run of the assembler share the row index of the input, so the index itself is
  not modelled. A well-formed frame has distinct labels and columns of \<open>nrows\<close> cells.
\<close>

record dataframe =
  nrows :: nat
  cols :: "(ustr \<times> pyval list) list"

definition labels :: "dataframe \<Rightarrow> ustr list" where
  "labels df = map fst (cols df)"

definition wf_frame :: "dataframe \<Rightarrow> bool" where
  "wf_frame df = (distinct (labels df) \<and> list_all (\<lambda>(l, xs). length xs = nrows df) (cols df))"

text \<open>\<^verbatim>\<open>df[label]\<close>: the column, KeyError when there is none.\<close>

definition getitem :: "dataframe \<Rightarrow> ustr \<Rightarrow> error + pyval list" where
  "getitem df label = (case map_of (cols df) label of None \<Rightarrow> Inl KeyError | Some xs \<Rightarrow> Inr xs)"

text \<open>
  \<^verbatim>\<open>series.str\<close>. pandas infers the kind of a column from its values other than the
  missing ones, and the accessor exists for text, for mixed values and for a column
  without any value; on a column of numbers or of booleans it raises AttributeError
  ("Can only use .str accessor with string values"). A column holding missing values
  only is taken to be an object column, as a text column without any value is. On a cell
  that is not text the methods of the accessor give the missing value.
\<close>

definition is_number :: "pyval \<Rightarrow> bool" where
  "is_number x = (case x of PInt i \<Rightarrow> True | PFloat r \<Rightarrow> True | _ \<Rightarrow> False)"

definition is_boolean :: "pyval \<Rightarrow> bool" where
  "is_boolean x = (case x of PBool b \<Rightarrow> True | _ \<Rightarrow> False)"

definition str_accessor :: "pyval list \<Rightarrow> error + ustr option list" where
  "str_accessor cells =
     (let present = filter (\<lambda>x. x \<noteq> PNone) cells
      in if present \<noteq> [] \<and> (list_all is_number present \<or> list_all is_boolean present)
         then Inl AttributeError
         else Inr (map (\<lambda>x. case x of PStr t \<Rightarrow> Some t | _ \<Rightarrow> None) cells))"

text \<open>
  \<^verbatim>\<open>df[label].str\<close>: when two columns carry the label (which the renaming can bring
  about) the selection is a DataFrame, which has no \<^verbatim>\<open>str\<close> accessor.
\<close>

definition getitem_str :: "dataframe \<Rightarrow> ustr \<Rightarrow> error + ustr option list" where
  "getitem_str df label =
     (case filter (\<lambda>(l, xs). l = label) (cols df) of
        [] \<Rightarrow> Inl KeyError
      | [(l, xs)] \<Rightarrow> str_accessor xs
      | _ \<Rightarrow> Inl AttributeError)"

text \<open>
  \<^verbatim>\<open>series.apply(lambda x: pd.Series(f(x)))\<close>: one row per cell, the keys of the
  dictionaries as columns. On a series without rows \<^verbatim>\<open>apply\<close> does not call the
  function and returns the empty series under its own name.
\<close>

definition series_apply ::
  "ustr \<Rightarrow> pyval list \<Rightarrow> (pyval \<Rightarrow> error + dict) \<Rightarrow> error + dataframe" where
  "series_apply name cells f =
     (case cells of
        [] \<Rightarrow> Inr \<lparr>nrows = 0, cols = [(name, [])]\<rparr>
      | x # xs \<Rightarrow>
          bind (f x) (\<lambda>first_row.
          bind (map_err f xs) (\<lambda>more_rows.
          Inr \<lparr>nrows = length cells,
               cols = map (\<lambda>key. (key, map (\<lambda>row. case map_of row key of
                                                       None \<Rightarrow> PNone | Some v \<Rightarrow> v)
                                             (first_row # more_rows)))
                          (map fst first_row)\<rparr>)))"

text \<open>\<^verbatim>\<open>df.drop(columns=ls)\<close>: a new frame; KeyError when a label is not a column.\<close>

definition drop_columns :: "dataframe \<Rightarrow> ustr list \<Rightarrow> error + dataframe" where
  "drop_columns df ls =
     (if list_all (\<lambda>l. l \<in> set (labels df)) ls
      then Inr (df\<lparr>cols := filter (\<lambda>(l, xs). l \<notin> set ls) (cols df)\<rparr>)
      else Inl KeyError)"

text \<open>\<^verbatim>\<open>pd.concat(frames, axis=1)\<close> of frames on one row index.\<close>

definition concat_columns :: "dataframe list \<Rightarrow> dataframe" where
  "concat_columns frames =
     \<lparr>nrows = (case frames of [] \<Rightarrow> 0 | df # _ \<Rightarrow> nrows df),
      cols = concat (map cols frames)\<rparr>"

text \<open>\<^verbatim>\<open>df.rename(columns=mapping)\<close>: labels that are no column are ignored.\<close>

definition rename_columns :: "dataframe \<Rightarrow> (ustr \<times> ustr) list \<Rightarrow> dataframe" where
  "rename_columns df mapping =
     df\<lparr>cols := map (\<lambda>(l, xs). (case map_of mapping l of None \<Rightarrow> l | Some l' \<Rightarrow> l', xs))
                     (cols df)\<rparr>"

text \<open>Setting a column: in place when the label is a column, else as a new last column.\<close>

definition set_column :: "dataframe \<Rightarrow> ustr \<Rightarrow> pyval list \<Rightarrow> dataframe" where
  "set_column df label cells =
     (if label \<in> set (labels df)
      then df\<lparr>cols := map (\<lambda>(l, xs). if l = label then (l, cells) else (l, xs)) (cols df)\<rparr>
      else df\<lparr>cols := cols df @ [(label, cells)]\<rparr>)"

text \<open>
  \<^verbatim>\<open>pd.concat([a, b])\<close>: the rows of \<open>b\<close> under the rows of \<open>a\<close>. The columns are those
  of \<open>a\<close> followed by the further ones of \<open>b\<close>; a frame without a column has missing
  values there.
\<close>

definition column_or_missing :: "dataframe \<Rightarrow> ustr \<Rightarrow> pyval list" where
  "column_or_missing df label =
     (case map_of (cols df) label of None \<Rightarrow> replicate (nrows df) PNone | Some xs \<Rightarrow> xs)"

definition concat_rows :: "dataframe \<Rightarrow> dataframe \<Rightarrow> dataframe" where
  "concat_rows a b =
     \<lparr>nrows = nrows a + nrows b,
      cols = map (\<lambda>l. (l, column_or_missing a l @ column_or_missing b l))
                 (labels a @ filter (\<lambda>l. l \<notin> set (labels a)) (labels b))\<rparr>"

section \<open>Price normalizer\<close>

text \<open>
  \<^verbatim>\<open>.str.extract(pattern)\<close> on a cell: the text of group 1 of the first match, the
  missing value when the cell is missing or the pattern does not match.
\<close>

definition str_extract :: "regex \<Rightarrow> ustr option \<Rightarrow> ustr option" where
  "str_extract r cell =
     (case cell of
        None \<Rightarrow> None
      | Some t \<Rightarrow> (case search r t of None \<Rightarrow> None | Some g \<Rightarrow> g))"

text \<open>
  \<^verbatim>\<open>.astype("int64")\<close> on an extracted cell: a missing value cannot be converted
  (ValueError), and a number beyond 64 bits does not fit (OverflowError).
\<close>

definition astype_int64 :: "ustr option \<Rightarrow> error + pyval" where
  "astype_int64 cell =
     (case cell of
        None \<Rightarrow> Inl ValueError
      | Some t \<Rightarrow>
          bind (py_int (Some t)) (\<lambda>n.
          if n < 2 ^ 63 then Inr (PInt n) else Inl OverflowError))"

text \<open>
  \<^verbatim>\<open>float(text)\<close>. Of the literals \<^verbatim>\<open>float\<close> accepts, the plain decimal ones are
  recognised: an optional sign, digits, and an optional point with further digits,
  with white space around. The exponent, underscore, infinity and not-a-number forms
  are not reproduced (the model answers ValueError for them as for any other text).
\<close>

definition float_of_text :: "ustr \<Rightarrow> error + rat" where
  "float_of_text s =
     (let t = strip s;
          negative = (case t of c # _ \<Rightarrow> c = 45 | [] \<Rightarrow> False);
          u = (case t of c # r \<Rightarrow> if c = 45 \<or> c = 43 then r else t | [] \<Rightarrow> t);
          int_part = takeWhile is_digit u;
          rest = dropWhile is_digit u;
          frac_part = (case rest of c # r \<Rightarrow> if c = 46 then r else rest | [] \<Rightarrow> []);
          magnitude = of_int (digits_value (int_part @ frac_part)) / 10 ^ length frac_part
      in if (case rest of [] \<Rightarrow> True | c # _ \<Rightarrow> c = 46) \<and> list_all is_digit frac_part
            \<and> int_part @ frac_part \<noteq> []
         then Inr (if negative then - magnitude else magnitude)
         else Inl ValueError)"

text \<open>
  \<^verbatim>\<open>.astype("float64")\<close> on a cell. A missing value stays missing. A price cell is text
  or a number; the conversion of any other value fails.
\<close>

fun astype_float64 :: "pyval \<Rightarrow> error + pyval" where
  "astype_float64 PNone = Inr PNone"
| "astype_float64 (PBool b) = Inr (PFloat (if b then 1 else 0))"
| "astype_float64 (PInt i) = Inr (PFloat (of_int i))"
| "astype_float64 (PFloat r) = Inr (PFloat r)"
| "astype_float64 (PStr t) = bind (float_of_text t) (\<lambda>r. Inr (PFloat r))"
| "astype_float64 _ = Inl TypeError"

definition astype_float64_text :: "ustr option \<Rightarrow> error + pyval" where
  "astype_float64_text cell =
     (case cell of None \<Rightarrow> Inr PNone | Some t \<Rightarrow> astype_float64 (PStr t))"

definition times_1000 :: "pyval \<Rightarrow> pyval" where
  "times_1000 x = (case x of PFloat r \<Rightarrow> PFloat (r * 1000) | _ \<Rightarrow> x)"

text \<open>
  \<^verbatim>\<open>df.assign(precio_inmueble=..., price=..., precio_m2=...)\<close> works on a copy of the
  frame and sets the three columns in this order, each computed from the copy as it
  is by then.
\<close>

definition normalizar_precios_frame :: "dataframe \<Rightarrow> error + dataframe" where
  "normalizar_precios_frame df =
     bind (getitem_str df (str ''precio_inmueble'')) (\<lambda>raw.
     bind (map_err (\<lambda>cell. astype_int64
                     (str_extract (Group (Plus (Cls Digit)))
                        (map_option (replace_chr 46 []) cell))) raw) (\<lambda>precio_inmueble.
     let x = set_column df (str ''precio_inmueble'') precio_inmueble in
     bind (getitem x (str ''price'')) (\<lambda>raw.
     bind (map_err astype_float64 raw) (\<lambda>floats.
     let x = set_column x (str ''price'') (map times_1000 floats) in
     bind (getitem_str x (str ''precio_m2'')) (\<lambda>raw.
     bind (map_err (\<lambda>cell. astype_float64_text
                     (str_extract
                        (Group (Seq (Plus (Cls Digit))
                                    (Seq (Opt (Lit [46])) (Star (Cls Digit)))))
                        (map_option (replace_chr 44 [46]) cell))) raw) (\<lambda>precio_m2.
     Inr (set_column x (str ''precio_m2'') precio_m2)))))))"

section \<open>Record assembler\<close>

text \<open>
  DataFrames are objects: the assembler keeps a reference to the frame it was built
  with, every pandas call of \<^verbatim>\<open>normalize_dataframe\<close> makes a new object, and
  \<^verbatim>\<open>rename(..., inplace=True)\<close> changes one where it is. The store of objects is a
  list, a reference an index into it, and a new object goes to the end.
\<close>

type_synonym ref = nat

type_synonym heap = "dataframe list"

definition alloc :: "dataframe \<Rightarrow> heap \<Rightarrow> ref \<times> heap" where
  "alloc df h = (length h, h @ [df])"

record NormalizarDataFrame =
  dataframe :: ref

definition init :: "ref \<Rightarrow> NormalizarDataFrame" where
  "init dataframe_ref = \<lparr>dataframe = dataframe_ref\<rparr>"

definition normalizar_precios :: "ref \<Rightarrow> heap \<Rightarrow> error + ref \<times> heap" where
  "normalizar_precios df h =
     bind (normalizar_precios_frame (h ! df)) (\<lambda>assigned. Inr (alloc assigned h))"

definition normalize_dataframe :: "NormalizarDataFrame \<Rightarrow> heap \<Rightarrow> error + ref \<times> heap" where
  "normalize_dataframe self h =
     bind (getitem (h ! dataframe self) (str ''info_features'')) (\<lambda>column.
     bind (series_apply (str ''info_features'') column extract_info_features) (\<lambda>applied.
     case alloc applied h of (df_info_features, h) \<Rightarrow>
     bind (getitem (h ! dataframe self) (str ''certificado_energetico'')) (\<lambda>column.
     bind (series_apply (str ''certificado_energetico'') column
             extract_certificado_energetico) (\<lambda>applied.
     case alloc applied h of (df_certificado_energetico, h) \<Rightarrow>
     bind (getitem (h ! dataframe self) (str ''caracteristicas_basicas'')) (\<lambda>column.
     bind (series_apply (str ''caracteristicas_basicas'') column
             extract_caracteristicas_basicas) (\<lambda>applied.
     case alloc applied h of (df_caracteristicas_basicas, h) \<Rightarrow>
     bind (drop_columns (h ! dataframe self)
             [str ''info_features'', str ''certificado_energetico'',
              str ''caracteristicas_basicas'']) (\<lambda>dropped.
     case alloc dropped h of (df_dropped, h) \<Rightarrow>
     case alloc (concat_columns
                   [h ! df_dropped, h ! df_info_features, h ! df_certificado_energetico,
                    h ! df_caracteristicas_basicas]) h of (dataframe_normalizado, h) \<Rightarrow>
     let h = h[dataframe_normalizado :=
                 rename_columns (h ! dataframe_normalizado)
                   [(str ''Precio del inmueble:'', str ''precio_inmueble''),
                    (str ''Precio por m'' @ [178] @ str '':'', str ''precio_m2'')]]
     in normalizar_precios dataframe_normalizado h)))))))"

section \<open>Append-or-replace store\<close>


definition path_join :: "ustr \<Rightarrow> ustr \<Rightarrow> ustr" where
  "path_join a b =
     (if prefix [47] b then b
      else if a = [] \<or> suffix [47] a then a @ b
      else a @ [47] @ b)"

text \<open>
  The target path of \<^verbatim>\<open>save_df_to_parquet\<close>: the extension is added when
  \<^verbatim>\<open>".parquet" not in name\<close>, then the name is joined to the directory.
\<close>

definition file_path :: "ustr \<Rightarrow> ustr \<Rightarrow> ustr" where
  "file_path dest_path name =
     (let name = (if \<not> sublist (str ''.parquet'') name then name @ str ''.parquet'' else name)
      in path_join dest_path name)"


section \<open>Notions for the verification\<close>

text \<open>A pattern without a capturing group.\<close>

fun nogroup :: "regex \<Rightarrow> bool" where
  "nogroup (Group r) = False"
| "nogroup (Seq a b) = (nogroup a \<and> nogroup b)"
| "nogroup (Opt r) = nogroup r"
| "nogroup (Star r) = nogroup r"
| "nogroup (Plus r) = nogroup r"
| "nogroup (Rep n r) = nogroup r"
| "nogroup _ = True"

text \<open>A non-empty run of digits.\<close>

definition digit_run :: "ustr \<Rightarrow> bool" where
  "digit_run d = (d \<noteq> [] \<and> list_all is_digit d)"

text \<open>A pattern whose group 1, in every match, is a run of digits.\<close>

definition digit_pattern :: "regex \<Rightarrow> bool" where
  "digit_pattern r =
     (\<forall>s g s' g'. (s', g') \<in> set (matches r s g) \<longrightarrow> (\<exists>d. g' = Some d \<and> digit_run d))"

text \<open>A pattern whose group 1 takes part in every match.\<close>

definition group_pattern :: "regex \<Rightarrow> bool" where
  "group_pattern r = (\<forall>s g s' g'. (s', g') \<in> set (matches r s g) \<longrightarrow> g' \<noteq> None)"

text \<open>
  The frame \<open>normalize_dataframe\<close> computes from the frame it was built with: the same
  pandas calls on values, without the store of objects.
\<close>

definition normalized :: "dataframe \<Rightarrow> error + dataframe" where
  "normalized df =
     bind (getitem df (str ''info_features'')) (\<lambda>column.
     bind (series_apply (str ''info_features'') column extract_info_features) (\<lambda>df_info_features.
     bind (getitem df (str ''certificado_energetico'')) (\<lambda>column.
     bind (series_apply (str ''certificado_energetico'') column
             extract_certificado_energetico) (\<lambda>df_certificado_energetico.
     bind (getitem df (str ''caracteristicas_basicas'')) (\<lambda>column.
     bind (series_apply (str ''caracteristicas_basicas'') column
             extract_caracteristicas_basicas) (\<lambda>df_caracteristicas_basicas.
     bind (drop_columns df
             [str ''info_features'', str ''certificado_energetico'',
              str ''caracteristicas_basicas'']) (\<lambda>dropped.
     normalizar_precios_frame
       (rename_columns
          (concat_columns
             [dropped, df_info_features, df_certificado_energetico, df_caracteristicas_basicas])
          [(str ''Precio del inmueble:'', str ''precio_inmueble''),
           (str ''Precio por m'' @ [178] @ str '':'', str ''precio_m2'')]))))))))"

text \<open>A batch of one listing, as read back from a Parquet file.\<close>

definition example_batch :: dataframe where
  "example_batch =
     \<lparr>nrows = 1,
      cols = [(str ''title'', [PStr (str ''Piso'')]),
              (str ''price'', [PStr (str ''150.000'')]),
              (str ''info_features'', [PArray [PStr (str ''3 hab.''), PStr (str ''con ascensor'')]]),
              (str ''caracteristicas_basicas'', [PArray [PStr (str ''Terraza'')]]),
              (str ''certificado_energetico'',
                 [PArray [PDict [(str ''Consumo:'', PArray [PStr (str ''A''), PStr (str ''icon-a'')])]]]),
              (str ''Precio del inmueble:'', [PStr (str ''150.000 '' @ [8364])]),
              (str ''Precio por m'' @ [178] @ str '':'',
                 [PStr (str ''1.579 '' @ [8364] @ str ''/m'' @ [178])])]\<rparr>"

section \<open>The matcher\<close>

lemmas matches_Lit = matches.simps(1)
lemmas matches_Opt = matches.simps(5)
lemmas matches_Rep_0 = matches.simps(8)

declare matches.simps [simp del]

lemma search_unfold:
  "search r s = (case matches r s None of (t, g) # ms \<Rightarrow> Some g | [] \<Rightarrow> (case s of [] \<Rightarrow> None | c # cs \<Rightarrow> search r cs))"
  by (rule search.simps)

declare search.simps [simp del]

lemma search_Lit: "search (Lit w) s = (if sublist w s then Some None else None)"
proof (induction s)
  case Nil
  then show ?case by (cases w) (simp_all add: search_unfold[of _ "[]"] matches_Lit)
next
  case (Cons c cs)
  show ?case
  proof (cases "prefix w (c # cs)")
    case True
    then show ?thesis by (simp add: search_unfold[of _ "c # cs"] matches_Lit)
  next
    case False
    then show ?thesis using Cons
      by (simp add: search_unfold[of _ "c # cs"] matches_Lit sublist_Cons_right)
  qed
qed

lemma in_concat_map:
  "(s', g') \<in> set (concat (map (\<lambda>(t, u). f t u) xs)) \<longleftrightarrow> (\<exists>t u. (t, u) \<in> set xs \<and> (s', g') \<in> set (f t u))"
  by auto

lemma in_matches_Seq:
  "(s', g') \<in> set (matches (Seq a b) s g) \<longleftrightarrow>
     (\<exists>t u. (t, u) \<in> set (matches a s g) \<and> (s', g') \<in> set (matches b t u))"
  by (subst matches.simps) (rule in_concat_map)

lemma in_matches_Star:
  "(s', g') \<in> set (matches (Star r) s g) \<longleftrightarrow>
     (s', g') = (s, g) \<or>
     (\<exists>t u. (t, u) \<in> set (matches r s g) \<and> length t < length s \<and> (s', g') \<in> set (matches (Star r) t u))"
  by (subst matches.simps) (auto simp del: matches.simps split: if_splits)

lemma in_matches_Plus:
  "(s', g') \<in> set (matches (Plus r) s g) \<longleftrightarrow>
     (\<exists>t u. (t, u) \<in> set (matches r s g) \<and> (s', g') \<in> set (matches (Star r) t u))"
  by (subst matches.simps) (rule in_concat_map)

lemma in_matches_Rep_Suc:
  "(s', g') \<in> set (matches (Rep (Suc n) r) s g) \<longleftrightarrow>
     (\<exists>t u. (t, u) \<in> set (matches r s g) \<and> (s', g') \<in> set (matches (Rep n r) t u))"
  by (subst matches.simps) (rule in_concat_map)

lemma in_matches_Group:
  "(s', g') \<in> set (matches (Group r) s g) \<longleftrightarrow>
     (\<exists>u. (s', u) \<in> set (matches r s g)) \<and> g' = Some (take (length s - length s') s)"
  by (subst matches.simps) (auto simp del: matches.simps)

lemma in_matches_Cls:
  "(s', g') \<in> set (matches (Cls k) s g) \<longleftrightarrow> (\<exists>c. s = c # s' \<and> in_class k c \<and> g' = g)"
  by (cases s) (auto simp: matches.simps(2))

lemma nogroup_keeps: "nogroup r \<Longrightarrow> (s', g') \<in> set (matches r s g) \<Longrightarrow> g' = g"
proof (induction r s g arbitrary: s' g' rule: matches.induct)
  case (1 w s g)
  then show ?case by (simp add: matches_Lit split: if_splits)
next
  case (2 k s g)
  then show ?case by (simp only: in_matches_Cls) blast
next
  case (3 ks cs s g)
  then show ?case by (cases s) (auto simp: matches.simps(3) split: if_splits)
next
  case (4 a b s g)
  from 4(4) obtain t u where m: "(t, u) \<in> set (matches a s g)" "(s', g') \<in> set (matches b t u)"
    unfolding in_matches_Seq by blast
  from 4(3) have na: "nogroup a" and nb: "nogroup b" by simp_all
  from 4(1)[OF na m(1)] have "u = g" .
  moreover from 4(2)[OF m(1) refl nb m(2)] have "g' = u" .
  ultimately show ?case by simp
next
  case (5 r s g)
  then show ?case by (auto simp: matches_Opt)
next
  case (6 r s g)
  from 6(3) have nr: "nogroup r" by simp
  from 6(4) consider "(s', g') = (s, g)"
    | t u where "(t, u) \<in> set (matches r s g)" "length t < length s" "(s', g') \<in> set (matches (Star r) t u)"
    unfolding in_matches_Star[of s' g' r s g] by blast
  then show ?case
  proof cases
    case 1
    then show ?thesis by simp
  next
    case 2
    from 6(1)[OF nr 2(1)] have "u = g" .
    moreover from 6(2)[OF 2(1) refl 2(2) 6(3) 2(3)] have "g' = u" .
    ultimately show ?thesis by simp
  qed
next
  case (7 r s g)
  from 7(3) have nr: "nogroup r" "nogroup (Star r)" by simp_all
  from 7(4) obtain t u where m: "(t, u) \<in> set (matches r s g)" "(s', g') \<in> set (matches (Star r) t u)"
    unfolding in_matches_Plus by blast
  from 7(1)[OF nr(1) m(1)] have "u = g" .
  moreover from 7(2)[OF m(1) refl nr(2) m(2)] have "g' = u" .
  ultimately show ?case by simp
next
  case (8 r s g)
  then show ?case by (simp add: matches_Rep_0)
next
  case (9 n r s g)
  from 9(3) have nr: "nogroup r" "nogroup (Rep n r)" by simp_all
  from 9(4) obtain t u where m: "(t, u) \<in> set (matches r s g)" "(s', g') \<in> set (matches (Rep n r) t u)"
    unfolding in_matches_Rep_Suc by blast
  from 9(1)[OF nr(1) m(1)] have "u = g" .
  moreover from 9(2)[OF m(1) refl nr(2) m(2)] have "g' = u" .
  ultimately show ?case by simp
next
  case (10 r s g)
  then show ?case by simp
qed


lemma star_digit:
  "(s', g') \<in> set (matches (Star (Cls Digit)) s g) \<Longrightarrow> \<exists>d. s = d @ s' \<and> list_all is_digit d"
proof (induction s arbitrary: g)
  case Nil
  then show ?case unfolding in_matches_Star[of s' g' _ "[]" g] by simp
next
  case (Cons c cs)
  from Cons.prems consider "(s', g') = (c # cs, g)"
    | t u where "(t, u) \<in> set (matches (Cls Digit) (c # cs) g)" "(s', g') \<in> set (matches (Star (Cls Digit)) t u)"
    unfolding in_matches_Star[of s' g' _ "c # cs" g] by blast
  then show ?case
  proof cases
    case 1
    then show ?thesis by simp
  next
    case 2
    from 2(1) have c: "is_digit c" and t: "t = cs" unfolding in_matches_Cls by simp_all
    from Cons.IH[OF 2(2)[unfolded t]] obtain d where "cs = d @ s'" "list_all is_digit d" by blast
    with c have "c # cs = (c # d) @ s' \<and> list_all is_digit (c # d)" by simp
    then show ?thesis by blast
  qed
qed

lemma plus_digit:
  assumes "(s', g') \<in> set (matches (Plus (Cls Digit)) s g)"
  shows "\<exists>d. s = d @ s' \<and> digit_run d"
proof -
  from assms obtain t u where m: "(t, u) \<in> set (matches (Cls Digit) s g)"
      "(s', g') \<in> set (matches (Star (Cls Digit)) t u)"
    unfolding in_matches_Plus by blast
  from m(1) obtain c where c: "s = c # t" "is_digit c" unfolding in_matches_Cls by auto
  from star_digit[OF m(2)] obtain d where "t = d @ s'" "list_all is_digit d" by blast
  with c have "s = (c # d) @ s' \<and> digit_run (c # d)" by (simp add: digit_run_def)
  then show ?thesis by blast
qed

lemma rep_digit:
  "(s', g') \<in> set (matches (Rep n (Cls Digit)) s g) \<Longrightarrow>
     \<exists>d. s = d @ s' \<and> length d = n \<and> list_all is_digit d"
proof (induction n arbitrary: s g)
  case 0
  then show ?case by (simp add: matches_Rep_0)
next
  case (Suc n)
  from Suc.prems obtain t u where m: "(t, u) \<in> set (matches (Cls Digit) s g)"
      "(s', g') \<in> set (matches (Rep n (Cls Digit)) t u)"
    unfolding in_matches_Rep_Suc by blast
  from m(1) obtain c where c: "s = c # t" "is_digit c" unfolding in_matches_Cls by auto
  from Suc.IH[OF m(2)] obtain d where "t = d @ s'" "length d = n" "list_all is_digit d" by blast
  with c have "s = (c # d) @ s' \<and> length (c # d) = Suc n \<and> list_all is_digit (c # d)" by simp
  then show ?case by blast
qed

lemma rep4_digit:
  assumes "(s', g') \<in> set (matches (Rep 4 (Cls Digit)) s g)"
  shows "\<exists>d. s = d @ s' \<and> digit_run d"
proof -
  from rep_digit[OF assms] obtain d where "s = d @ s'" "length d = 4" "list_all is_digit d" by blast
  then have "s = d @ s' \<and> digit_run d" by (auto simp: digit_run_def)
  then show ?thesis by blast
qed

lemma digit_pattern_plus: "digit_pattern (Group (Plus (Cls Digit)))"
  unfolding digit_pattern_def
proof (intro allI impI)
  fix s g s' g'
  assume "(s', g') \<in> set (matches (Group (Plus (Cls Digit))) s g)"
  then obtain u where m: "(s', u) \<in> set (matches (Plus (Cls Digit)) s g)"
    and g': "g' = Some (take (length s - length s') s)"
    unfolding in_matches_Group by blast
  from plus_digit[OF m] obtain d where "s = d @ s'" "digit_run d" by blast
  with g' show "\<exists>d. g' = Some d \<and> digit_run d" by simp
qed

lemma digit_pattern_rep4: "digit_pattern (Group (Rep 4 (Cls Digit)))"
  unfolding digit_pattern_def
proof (intro allI impI)
  fix s g s' g'
  assume "(s', g') \<in> set (matches (Group (Rep 4 (Cls Digit))) s g)"
  then obtain u where m: "(s', u) \<in> set (matches (Rep 4 (Cls Digit)) s g)"
    and g': "g' = Some (take (length s - length s') s)"
    unfolding in_matches_Group by blast
  from rep4_digit[OF m] obtain d where "s = d @ s'" "digit_run d" by blast
  with g' show "\<exists>d. g' = Some d \<and> digit_run d" by simp
qed

lemma digit_pattern_then: "digit_pattern a \<Longrightarrow> nogroup b \<Longrightarrow> digit_pattern (Seq a b)"
  unfolding digit_pattern_def in_matches_Seq by (metis nogroup_keeps)

lemma digit_pattern_after: "digit_pattern b \<Longrightarrow> digit_pattern (Seq a b)"
  unfolding digit_pattern_def in_matches_Seq by blast

lemma group_pattern_Group: "group_pattern (Group r)"
  unfolding group_pattern_def in_matches_Group by blast

lemma group_pattern_after: "group_pattern b \<Longrightarrow> group_pattern (Seq a b)"
  unfolding group_pattern_def in_matches_Seq by blast

lemma search_result: "search r s = Some g \<Longrightarrow> \<exists>t s'. (s', g) \<in> set (matches r t None)"
proof (induction s)
  case Nil
  show ?case
  proof (cases "matches r [] None")
    case Nil
    with Nil.prems show ?thesis by (simp add: search_unfold[of _ "[]"])
  next
    case (Cons m ms)
    with Nil.prems have "snd m = g" by (cases m) (simp add: search_unfold[of _ "[]"])
    with Cons have "(fst m, g) \<in> set (matches r [] None)" by (cases m) auto
    then show ?thesis by blast
  qed
next
  case (Cons c cs)
  show ?case
  proof (cases "matches r (c # cs) None")
    case Nil
    with Cons show ?thesis by (simp add: search_unfold[of _ "c # cs"])
  next
    case (Cons m ms)
    with Cons.prems have "snd m = g" by (cases m) (simp add: search_unfold[of _ "c # cs"])
    with Cons have "(fst m, g) \<in> set (matches r (c # cs) None)" by (cases m) auto
    then show ?thesis by blast
  qed
qed

lemma int_group1_digit_pattern:
  assumes "digit_pattern r"
  shows "\<exists>v. int_group1 (search r s) = Inr v"
proof (cases "search r s")
  case None
  then show ?thesis by simp
next
  case (Some g)
  from search_result[OF Some] assms obtain d where "g = Some d" "digit_run d"
    unfolding digit_pattern_def by blast
  with Some show ?thesis by (simp add: digit_run_def bind_def)
qed

lemma strip_group1_group_pattern:
  assumes "group_pattern r"
  shows "\<exists>v. strip_group1 (search r s) = Inr v"
proof (cases "search r s")
  case None
  then show ?thesis by simp
next
  case (Some g)
  from search_result[OF Some] assms obtain t where "g = Some t"
    unfolding group_pattern_def by blast
  with Some show ?thesis by simp
qed

section \<open>Info-feature extractor\<close>

lemma join_text_list: "join sep (PList (map PStr frags)) = Inr (join_items sep frags)"
proof -
  have "text_items (map PStr frags) = Inr frags"
    by (induction frags) (simp_all add: bind_def)
  then show ?thesis by (simp add: join_def bind_def)
qed

lemma extract_info_features_returns:
  assumes "join (str '' '') info = Inr joined"
  shows "\<exists>v1 v2 v3. extract_info_features info =
    Inr [(str ''superficie_m2'', v1),
         (str ''habitaciones'', v2),
         (str ''garaje'', PBool (sublist (str ''garaje incluido'') (lower joined)
                                 \<or> sublist (str ''con garaje'') (lower joined))),
         (str ''planta'', v3),
         (str ''ascensor'',
            if sublist (str ''con ascensor'') (lower joined) then PBool True
            else if sublist (str ''sin ascensor'') (lower joined) then PBool False
            else PNone)]"
proof -
  let ?t = "lower joined"
  let ?p1 = "Seq (Group (Plus (Cls Digit))) (Seq (Star (Cls Space)) (Lit (str ''m'' @ [178])))"
  let ?p2 = "Seq (Group (Plus (Cls Digit))) (Seq (Star (Cls Space)) (Lit (str ''hab'')))"
  let ?p3 = "Seq (Lit (str ''planta '')) (Group (Plus (Cls Digit)))"
  have "digit_pattern ?p1" by (rule digit_pattern_then[OF digit_pattern_plus]) simp
  from int_group1_digit_pattern[OF this] obtain v1 where v1: "int_group1 (search ?p1 ?t) = Inr v1"
    by blast
  have "digit_pattern ?p2" by (rule digit_pattern_then[OF digit_pattern_plus]) simp
  from int_group1_digit_pattern[OF this] obtain v2 where v2: "int_group1 (search ?p2 ?t) = Inr v2"
    by blast
  have "digit_pattern ?p3" by (rule digit_pattern_after[OF digit_pattern_plus])
  from int_group1_digit_pattern[OF this] obtain v3 where v3: "int_group1 (search ?p3 ?t) = Inr v3"
    by blast
  have "extract_info_features info =
    Inr [(str ''superficie_m2'', v1),
         (str ''habitaciones'', v2),
         (str ''garaje'', PBool (sublist (str ''garaje incluido'') ?t
                                 \<or> sublist (str ''con garaje'') ?t)),
         (str ''planta'', v3),
         (str ''ascensor'',
            if sublist (str ''con ascensor'') ?t then PBool True
            else if sublist (str ''sin ascensor'') ?t then PBool False
            else PNone)]"
    unfolding extract_info_features_def assms Let_def
    by (simp add: bind_def v1 v2 v3 search_Lit)
  then show ?thesis by blast
qed

lemma keys_info:
  "str ''ascensor'' \<noteq> str ''superficie_m2''" "str ''ascensor'' \<noteq> str ''habitaciones''"
  "str ''ascensor'' \<noteq> str ''garaje''" "str ''ascensor'' \<noteq> str ''planta''"
  "str ''garaje'' \<noteq> str ''superficie_m2''" "str ''garaje'' \<noteq> str ''habitaciones''"
  by (simp_all add: str_def)

text \<open>
  Claim C6. Whenever the fragments can be joined, \<open>extract_info_features\<close> returns, and
  its \<open>ascensor\<close> entry is decided by the lowercased joined text alone: true when it
  contains "con ascensor" (tested first), false when it does not but contains
  "sin ascensor", and absent when it contains neither.
\<close>

theorem extract_info_features_ascensor:
  assumes "join (str '' '') info = Inr joined"
  shows "\<exists>d. extract_info_features info = Inr d \<and>
           map_of d (str ''ascensor'') =
             Some (if sublist (str ''con ascensor'') (lower joined) then PBool True
                   else if sublist (str ''sin ascensor'') (lower joined) then PBool False
                   else PNone)"
proof -
  from extract_info_features_returns[OF assms] obtain v1 v2 v3 where
    "extract_info_features info =
    Inr [(str ''superficie_m2'', v1),
         (str ''habitaciones'', v2),
         (str ''garaje'', PBool (sublist (str ''garaje incluido'') (lower joined)
                                 \<or> sublist (str ''con garaje'') (lower joined))),
         (str ''planta'', v3),
         (str ''ascensor'',
            if sublist (str ''con ascensor'') (lower joined) then PBool True
            else if sublist (str ''sin ascensor'') (lower joined) then PBool False
            else PNone)]" by blast
  then show ?thesis by (simp add: keys_info)
qed

theorem extract_info_features_ascensor_witness:
  "join (str '' '') (PList [PStr (str ''Planta 2''), PStr (str ''SIN Ascensor'')])
     = Inr (str ''Planta 2 SIN Ascensor'') \<and>
   (\<exists>d. extract_info_features (PList [PStr (str ''Planta 2''), PStr (str ''SIN Ascensor'')]) = Inr d \<and>
        map_of d (str ''ascensor'') = Some (PBool False))"
proof -
  have h: "join (str '' '') (PList [PStr (str ''Planta 2''), PStr (str ''SIN Ascensor'')])
     = Inr (str ''Planta 2 SIN Ascensor'')" by code_simp
  have f1: "sublist (str ''con ascensor'') (lower (str ''Planta 2 SIN Ascensor'')) = False" by code_simp
  have f2: "sublist (str ''sin ascensor'') (lower (str ''Planta 2 SIN Ascensor'')) = True" by code_simp
  from extract_info_features_ascensor[OF h] show ?thesis unfolding f1 f2 using h by simp
qed

text \<open>
  Claim C10. On the empty fragment sequence (a list or an array)
  \<open>extract_info_features\<close> returns, without error, \<open>superficie_m2\<close>, \<open>habitaciones\<close>,
  \<open>planta\<close> and \<open>ascensor\<close> absent and \<open>garaje\<close> false. Whatever the input, a returned
  mapping has a boolean under \<open>garaje\<close>, never the absent value; and the extractor
  returns on every sequence of text fragments.
\<close>

theorem extract_info_features_empty:
  "extract_info_features (PList []) =
     Inr [(str ''superficie_m2'', PNone), (str ''habitaciones'', PNone),
          (str ''garaje'', PBool False), (str ''planta'', PNone), (str ''ascensor'', PNone)]
   \<and> extract_info_features (PArray []) =
     Inr [(str ''superficie_m2'', PNone), (str ''habitaciones'', PNone),
          (str ''garaje'', PBool False), (str ''planta'', PNone), (str ''ascensor'', PNone)]
   \<and> (\<forall>info d. extract_info_features info = Inr d \<longrightarrow>
          (\<exists>b. map_of d (str ''garaje'') = Some (PBool b)))
   \<and> (\<forall>frags. \<exists>d. extract_info_features (PList (map PStr frags)) = Inr d)"
proof (intro conjI allI impI)
  show "extract_info_features (PList []) =
     Inr [(str ''superficie_m2'', PNone), (str ''habitaciones'', PNone),
          (str ''garaje'', PBool False), (str ''planta'', PNone), (str ''ascensor'', PNone)]"
    by code_simp
next
  show "extract_info_features (PArray []) =
     Inr [(str ''superficie_m2'', PNone), (str ''habitaciones'', PNone),
          (str ''garaje'', PBool False), (str ''planta'', PNone), (str ''ascensor'', PNone)]"
    by code_simp
next
  fix info d
  assume r: "extract_info_features info = Inr d"
  show "\<exists>b. map_of d (str ''garaje'') = Some (PBool b)"
  proof (cases "join (str '' '') info")
    case (Inl e)
    with r show ?thesis by (simp add: extract_info_features_def bind_def)
  next
    case (Inr joined)
    from extract_info_features_returns[OF Inr] r show ?thesis
      by (auto simp: keys_info)
  qed
next
  fix frags
  from extract_info_features_returns[OF join_text_list]
  show "\<exists>d. extract_info_features (PList (map PStr frags)) = Inr d" by blast
qed

theorem extract_info_features_empty_witness:
  "extract_info_features (PList [PStr (str ''con garaje'')]) =
      Inr [(str ''superficie_m2'', PNone), (str ''habitaciones'', PNone),
          (str ''garaje'', PBool True), (str ''planta'', PNone), (str ''ascensor'', PNone)]
   \<and> (\<exists>b. map_of [(str ''superficie_m2'', PNone), (str ''habitaciones'', PNone),
          (str ''garaje'', PBool True), (str ''planta'', PNone), (str ''ascensor'', PNone)]
         (str ''garaje'') = Some (PBool b))"
proof -
  have h: "extract_info_features (PList [PStr (str ''con garaje'')]) =
      Inr [(str ''superficie_m2'', PNone), (str ''habitaciones'', PNone),
          (str ''garaje'', PBool True), (str ''planta'', PNone), (str ''ascensor'', PNone)]"
    by code_simp
  from extract_info_features_empty h show ?thesis by blast
qed

section \<open>Basic-characteristics extractor\<close>

lemma bind_Inr: "bind (Inr x) f = f x"
  by (simp add: bind_def)

lemma search_Lit_iff: "(search (Lit w) s \<noteq> None) = sublist w s"
  by (simp add: search_Lit)

lemma extract_caracteristicas_basicas_returns:
  assumes "join (str '' '') cb = Inr joined"
  shows "\<exists>v1 v2 v3 v4 v5 v6 v7 v8 v9. extract_caracteristicas_basicas cb =
    Inr [(str ''caracteristicas_basicas_superficie_m2'', v1),
         (str ''superficie_util_m2'', v2),
         (str ''caracteristicas_basicas_habitaciones'', v3),
         (str ''caracteristicas_basicas_banos'', v4),
         (str ''parcela_m2'', v5),
         (str ''terraza'', PBool (sublist (str ''terraza'') (lower joined))),
         (str ''balcon'', PBool (sublist (str ''balc'' @ [243] @ str ''n'') (lower joined))),
         (str ''garaje_incluido'',
            PBool (sublist (str ''plaza de garaje incluida en el precio'') (lower joined))),
         (str ''segunda_mano_buen_estado'',
            PBool (sublist (str ''segunda mano/buen estado'') (lower joined))),
         (str ''armarios_empotrados'', PBool (sublist (str ''armarios empotrados'') (lower joined))),
         (str ''orientacion'', v6),
         (str ''cocina_equipada'', PBool (sublist (str ''cocina equipada'') (lower joined))),
         (str ''amueblada'',
            PBool (sublist (str ''casa sin amueblar'') (lower joined)
                   \<or> sublist (str ''amueblado'') (lower joined))),
         (str ''calefaccion'', v7),
         (str ''trastero'', PBool (sublist (str ''trastero'') (lower joined))),
         (str ''construccion'', v8),
         (str ''plantas'', v9)]"
proof -
  let ?t = "lower joined"
  let ?d = "Group (Plus (Cls Digit))"
  let ?s = "Star (Cls Space)"
  let ?p1 = "Seq ?d (Seq ?s (Lit (str ''m'' @ [178] @ str '' construidos'')))"
  let ?p2 = "Seq ?d (Seq ?s (Lit (str ''m'' @ [178] @ str '' '' @ [250] @ str ''tiles'')))"
  let ?p3 = "Seq ?d (Seq ?s (Seq (Lit (str ''habitac'')) (Opt (Lit (str ''i'')))))"
  let ?p4 = "Seq ?d (Seq ?s (Seq (Lit (str ''ba'' @ [241] @ str ''o'')) (Opt (Lit (str ''s'')))))"
  let ?p5 = "Seq (Lit (str ''parcela de '')) (Seq ?d (Seq ?s (Lit (str ''m'' @ [178]))))"
  let ?p7 = "Seq (Lit (str ''calefacci'' @ [243] @ str ''n''))
               (Seq ?s (Group (Plus (AnyOf [Word, Space] (str '':'')))))"
  let ?p8 = "Seq (Lit (str ''construido en '')) (Group (Rep 4 (Cls Digit)))"
  let ?p9 = "Seq ?d (Seq ?s (Lit (str ''plantas'')))"
  have "digit_pattern ?p1" by (rule digit_pattern_then[OF digit_pattern_plus]) simp
  from int_group1_digit_pattern[OF this] obtain v1 where v1: "int_group1 (search ?p1 ?t) = Inr v1"
    by blast
  have "digit_pattern ?p2" by (rule digit_pattern_then[OF digit_pattern_plus]) simp
  from int_group1_digit_pattern[OF this] obtain v2 where v2: "int_group1 (search ?p2 ?t) = Inr v2"
    by blast
  have "digit_pattern ?p3" by (rule digit_pattern_then[OF digit_pattern_plus]) simp
  from int_group1_digit_pattern[OF this] obtain v3 where v3: "int_group1 (search ?p3 ?t) = Inr v3"
    by blast
  have "digit_pattern ?p4" by (rule digit_pattern_then[OF digit_pattern_plus]) simp
  from int_group1_digit_pattern[OF this] obtain v4 where v4: "int_group1 (search ?p4 ?t) = Inr v4"
    by blast
  have "digit_pattern ?p5"
    by (rule digit_pattern_after[OF digit_pattern_then[OF digit_pattern_plus]]) simp
  from int_group1_digit_pattern[OF this] obtain v5 where v5: "int_group1 (search ?p5 ?t) = Inr v5"
    by blast
  have "group_pattern ?p7"
    by (rule group_pattern_after[OF group_pattern_after[OF group_pattern_Group]])
  from strip_group1_group_pattern[OF this] obtain v7 where v7: "strip_group1 (search ?p7 ?t) = Inr v7"
    by blast
  have "digit_pattern ?p8" by (rule digit_pattern_after[OF digit_pattern_rep4])
  from int_group1_digit_pattern[OF this] obtain v8 where v8: "int_group1 (search ?p8 ?t) = Inr v8"
    by blast
  have "digit_pattern ?p9" by (rule digit_pattern_then[OF digit_pattern_plus]) simp
  from int_group1_digit_pattern[OF this] obtain v9 where v9: "int_group1 (search ?p9 ?t) = Inr v9"
    by blast
  let ?p6 = "Seq (Lit (str ''orientaci'' @ [243] @ str ''n ''))
               (Group (Seq (Plus (Cls Word)) (Star (Seq (Lit (str '', '')) (Plus (Cls Word))))))"
  have main: "extract_caracteristicas_basicas cb =
    Inr [(str ''caracteristicas_basicas_superficie_m2'', v1),
         (str ''superficie_util_m2'', v2),
         (str ''caracteristicas_basicas_habitaciones'', v3),
         (str ''caracteristicas_basicas_banos'', v4),
         (str ''parcela_m2'', v5),
         (str ''terraza'', PBool (sublist (str ''terraza'') (lower joined))),
         (str ''balcon'', PBool (sublist (str ''balc'' @ [243] @ str ''n'') (lower joined))),
         (str ''garaje_incluido'',
            PBool (sublist (str ''plaza de garaje incluida en el precio'') (lower joined))),
         (str ''segunda_mano_buen_estado'',
            PBool (sublist (str ''segunda mano/buen estado'') (lower joined))),
         (str ''armarios_empotrados'', PBool (sublist (str ''armarios empotrados'') (lower joined))),
         (str ''orientacion'', str_group1 (search ?p6 ?t)),
         (str ''cocina_equipada'', PBool (sublist (str ''cocina equipada'') (lower joined))),
         (str ''amueblada'',
            PBool (sublist (str ''casa sin amueblar'') (lower joined)
                   \<or> sublist (str ''amueblado'') (lower joined))),
         (str ''calefaccion'', v7),
         (str ''trastero'', PBool (sublist (str ''trastero'') (lower joined))),
         (str ''construccion'', v8),
         (str ''plantas'', v9)]"
    unfolding extract_caracteristicas_basicas_def assms Let_def
    by (simp only: bind_Inr v1 v2 v3 v4 v5 v7 v8 v9 search_Lit_iff)
  show ?thesis by (intro exI) (rule main)
qed

text \<open>
  Claim C7. Whenever the fragments can be joined, \<open>extract_caracteristicas_basicas\<close>
  returns, and each of the flags terrace, balcony, included garage space, second-hand
  good condition, built-in wardrobes, equipped kitchen, furnished and storage room is a
  boolean, never the absent value: true when its phrase occurs in the lowercased joined
  text and false when it does not. The furnished flag has two phrases, "casa sin
  amueblar" and "amueblado", and is true when either occurs.
\<close>

theorem extract_caracteristicas_basicas_flags:
  assumes "join (str '' '') cb = Inr joined"
  shows "\<exists>d. extract_caracteristicas_basicas cb = Inr d \<and>
    map_of d (str ''terraza'') = Some (PBool (sublist (str ''terraza'') (lower joined))) \<and>
    map_of d (str ''balcon'') =
      Some (PBool (sublist (str ''balc'' @ [243] @ str ''n'') (lower joined))) \<and>
    map_of d (str ''garaje_incluido'') =
      Some (PBool (sublist (str ''plaza de garaje incluida en el precio'') (lower joined))) \<and>
    map_of d (str ''segunda_mano_buen_estado'') =
      Some (PBool (sublist (str ''segunda mano/buen estado'') (lower joined))) \<and>
    map_of d (str ''armarios_empotrados'') =
      Some (PBool (sublist (str ''armarios empotrados'') (lower joined))) \<and>
    map_of d (str ''cocina_equipada'') =
      Some (PBool (sublist (str ''cocina equipada'') (lower joined))) \<and>
    map_of d (str ''amueblada'') =
      Some (PBool (sublist (str ''casa sin amueblar'') (lower joined)
                   \<or> sublist (str ''amueblado'') (lower joined))) \<and>
    map_of d (str ''trastero'') = Some (PBool (sublist (str ''trastero'') (lower joined)))"
proof -
  from extract_caracteristicas_basicas_returns[OF assms]
  obtain v1 v2 v3 v4 v5 v6 v7 v8 v9 where d: "extract_caracteristicas_basicas cb =
    Inr [(str ''caracteristicas_basicas_superficie_m2'', v1),
         (str ''superficie_util_m2'', v2),
         (str ''caracteristicas_basicas_habitaciones'', v3),
         (str ''caracteristicas_basicas_banos'', v4),
         (str ''parcela_m2'', v5),
         (str ''terraza'', PBool (sublist (str ''terraza'') (lower joined))),
         (str ''balcon'', PBool (sublist (str ''balc'' @ [243] @ str ''n'') (lower joined))),
         (str ''garaje_incluido'',
            PBool (sublist (str ''plaza de garaje incluida en el precio'') (lower joined))),
         (str ''segunda_mano_buen_estado'',
            PBool (sublist (str ''segunda mano/buen estado'') (lower joined))),
         (str ''armarios_empotrados'', PBool (sublist (str ''armarios empotrados'') (lower joined))),
         (str ''orientacion'', v6),
         (str ''cocina_equipada'', PBool (sublist (str ''cocina equipada'') (lower joined))),
         (str ''amueblada'',
            PBool (sublist (str ''casa sin amueblar'') (lower joined)
                   \<or> sublist (str ''amueblado'') (lower joined))),
         (str ''calefaccion'', v7),
         (str ''trastero'', PBool (sublist (str ''trastero'') (lower joined))),
         (str ''construccion'', v8),
         (str ''plantas'', v9)]" by blast
  show ?thesis unfolding d by (simp add: str_def)
qed

theorem extract_caracteristicas_basicas_flags_witness:
  "join (str '' '') (PArray [PStr (str ''Terraza''), PStr (str ''Casa sin amueblar'')])
     = Inr (str ''Terraza Casa sin amueblar'') \<and>
   (\<exists>d. extract_caracteristicas_basicas
          (PArray [PStr (str ''Terraza''), PStr (str ''Casa sin amueblar'')]) = Inr d \<and>
     map_of d (str ''terraza'') = Some (PBool True) \<and>
     map_of d (str ''balcon'') = Some (PBool False) \<and>
     map_of d (str ''garaje_incluido'') = Some (PBool False) \<and>
     map_of d (str ''segunda_mano_buen_estado'') = Some (PBool False) \<and>
     map_of d (str ''armarios_empotrados'') = Some (PBool False) \<and>
     map_of d (str ''cocina_equipada'') = Some (PBool False) \<and>
     map_of d (str ''amueblada'') = Some (PBool True) \<and>
     map_of d (str ''trastero'') = Some (PBool False))"
proof -
  let ?t = "lower (str ''Terraza Casa sin amueblar'')"
  have h: "join (str '' '') (PArray [PStr (str ''Terraza''), PStr (str ''Casa sin amueblar'')])
     = Inr (str ''Terraza Casa sin amueblar'')" by code_simp
  have f: "sublist (str ''terraza'') ?t = True"
    "sublist (str ''balc'' @ [243] @ str ''n'') ?t = False"
    "sublist (str ''plaza de garaje incluida en el precio'') ?t = False"
    "sublist (str ''segunda mano/buen estado'') ?t = False"
    "sublist (str ''armarios empotrados'') ?t = False"
    "sublist (str ''cocina equipada'') ?t = False"
    "sublist (str ''casa sin amueblar'') ?t = True"
    "sublist (str ''amueblado'') ?t = False"
    "sublist (str ''trastero'') ?t = False"
    by code_simp+
  from extract_caracteristicas_basicas_flags[OF h] show ?thesis unfolding f using h by simp
qed

section \<open>Energy-certificate extractor\<close>

text \<open>
  Claim C3, as amended. On the entries "Consumo:" with the pair "A", "icon-a" and "Otro:"
  with the pair "X", "Y", \<open>extract_certificado_energetico\<close> returns the consumption value
  "A", the consumption icon "icon-a" and both emission fields absent when the pairs are
  numpy arrays, as they are once the batch has been read back from Parquet (the sequence
  of entries may be an array or a list). When the pairs are Python lists, as the scraper
  builds them, the \<^verbatim>\<open>isinstance(..., np.ndarray)\<close> test skips them and all four fields are
  absent.
\<close>

theorem extract_certificado_energetico_example:
  "extract_certificado_energetico
     (PArray [PDict [(str ''Consumo:'', PArray [PStr (str ''A''), PStr (str ''icon-a'')])],
              PDict [(str ''Otro:'', PArray [PStr (str ''X''), PStr (str ''Y'')])]]) =
   Inr [(str ''consumo_energetico_valor'', PStr (str ''A'')),
        (str ''consumo_energetico_icono'', PStr (str ''icon-a'')),
        (str ''emisiones_valor'', PNone),
        (str ''emisiones_icono'', PNone)]
   \<and>
   extract_certificado_energetico
     (PList [PDict [(str ''Consumo:'', PArray [PStr (str ''A''), PStr (str ''icon-a'')])],
             PDict [(str ''Otro:'', PArray [PStr (str ''X''), PStr (str ''Y'')])]]) =
   Inr [(str ''consumo_energetico_valor'', PStr (str ''A'')),
        (str ''consumo_energetico_icono'', PStr (str ''icon-a'')),
        (str ''emisiones_valor'', PNone),
        (str ''emisiones_icono'', PNone)]
   \<and>
   extract_certificado_energetico
     (PList [PDict [(str ''Consumo:'', PList [PStr (str ''A''), PStr (str ''icon-a'')])],
             PDict [(str ''Otro:'', PList [PStr (str ''X''), PStr (str ''Y'')])]]) =
   Inr [(str ''consumo_energetico_valor'', PNone),
        (str ''consumo_energetico_icono'', PNone),
        (str ''emisiones_valor'', PNone),
        (str ''emisiones_icono'', PNone)]"
  by code_simp

text \<open>
  Against claim C3 as stated: on its entry sequence as Python writes it, a list of
  dictionaries whose values are lists, the consumption fields are not "A" and "icon-a";
  all four fields are absent.
\<close>

theorem extract_certificado_energetico_python_lists:
  "extract_certificado_energetico
     (PList [PDict [(str ''Consumo:'', PList [PStr (str ''A''), PStr (str ''icon-a'')])],
             PDict [(str ''Otro:'', PList [PStr (str ''X''), PStr (str ''Y'')])]]) =
   Inr [(str ''consumo_energetico_valor'', PNone),
        (str ''consumo_energetico_icono'', PNone),
        (str ''emisiones_valor'', PNone),
        (str ''emisiones_icono'', PNone)]"
  by code_simp

section \<open>Price normalizer: what happens to a field without a number\<close>











text \<open>
  On a \<open>precio_inmueble\<close> column of numbers the \<^verbatim>\<open>str\<close> accessor itself is refused, before
  any conversion.
\<close>

lemma normalizar_precios_numeric_column:
  "normalizar_precios_frame
     \<lparr>nrows = 1,
      cols = [(str ''precio_inmueble'', [PInt 150000]),
              (str ''price'', [PFloat 150]),
              (str ''precio_m2'', [PStr (str ''1.579 '' @ [8364] @ str ''/m'' @ [178])])]\<rparr> =
   Inl AttributeError"
  by code_simp




text \<open>
  Claim C2 at its input. \<open>precio_inmueble\<close> becomes the integer 150000 and \<open>price\<close>
  150000.0, but \<open>precio_m2\<close> becomes 1.25 and not 1250.50: after the comma is replaced
  the text is "1.250.50", and the pattern takes "1.250". The thousands point is stripped
  for \<open>precio_inmueble\<close> only.
\<close>

theorem normalizar_precios_thousands_point:
  "normalizar_precios_frame
     \<lparr>nrows = 1,
      cols = [(str ''precio_inmueble'', [PStr (str ''150.000 '' @ [8364])]),
              (str ''price'', [PFloat 150]),
              (str ''precio_m2'', [PStr (str ''1.250,50 '' @ [8364] @ str ''/m'' @ [178])])]\<rparr> =
   Inr \<lparr>nrows = 1,
        cols = [(str ''precio_inmueble'', [PInt 150000]),
                (str ''price'', [PFloat 150000]),
                (str ''precio_m2'', [PFloat (5 / 4)])]\<rparr>"
  by code_simp

section \<open>Record assembler: the input frame is kept\<close>

lemma normalize_dataframe_result:
  assumes "dataframe self < length h"
  shows "case normalize_dataframe self h of
           Inl e \<Rightarrow> normalized (h ! dataframe self) = Inl e
         | Inr (r, h') \<Rightarrow>
             take (length h) h' = h \<and> length h \<le> r \<and> r < length h' \<and>
             normalized (h ! dataframe self) = Inr (h' ! r)"
  using assms
  unfolding normalize_dataframe_def normalized_def normalizar_precios_def alloc_def bind_def
  by (simp add: nth_append Let_def split: sum.splits)


lemma normalize_dataframe_old_objects:
  assumes "dataframe self < length h" and "normalize_dataframe self h = Inr (r, h')"
  shows "take (length h) h' = h" and "length h \<le> r" and "r < length h'"
    and "normalized (h ! dataframe self) = Inr (h' ! r)"
  using normalize_dataframe_result[OF assms(1)] assms(2) by simp_all

text \<open>
  Claim C9. \<open>normalize_dataframe\<close> does not change the frame the assembler was built
  with: when it returns, the object \<open>dataframe self\<close> refers to holds the frame it held
  before, with all its columns and values (as does every other object that existed), and
  the result is a new object.
\<close>

theorem normalize_dataframe_keeps_input:
  assumes "dataframe self < length h" and "normalize_dataframe self h = Inr (r, h')"
  shows "h' ! dataframe self = h ! dataframe self \<and> r \<noteq> dataframe self \<and>
         (\<forall>a<length h. h' ! a = h ! a)"
proof -
  note old = normalize_dataframe_old_objects[OF assms]
  have "h' ! a = h ! a" if "a < length h" for a
  proof -
    from that have "take (length h) h' ! a = h' ! a" by simp
    with old(1) show ?thesis by simp
  qed
  with assms(1) old(2) show ?thesis by simp
qed

text \<open>
  Claim C5. A second call of \<open>normalize_dataframe\<close> on the same assembler, in the store
  the first call left behind, returns as well, and its result is a frame equal to that of
  the first call: the result is a function of the input frame alone.
\<close>

theorem normalize_dataframe_twice:
  assumes "dataframe self < length h" and "normalize_dataframe self h = Inr (r1, h1)"
  shows "\<exists>r2 h2. normalize_dataframe self h1 = Inr (r2, h2) \<and> h2 ! r2 = h1 ! r1"
proof -
  note old = normalize_dataframe_old_objects[OF assms]
  from assms(1) have "take (length h) h1 ! dataframe self = h1 ! dataframe self" by simp
  with old(1) have same: "h1 ! dataframe self = h ! dataframe self" by simp
  from assms(1) old(2,3) have alive: "dataframe self < length h1" by simp
  show ?thesis
  proof (cases "normalize_dataframe self h1")
    case (Inl e)
    with normalize_dataframe_result[OF alive] same old(4) show ?thesis by simp
  next
    case (Inr p)
    obtain r2 h2 where p: "p = (r2, h2)" by (cases p)
    with Inr normalize_dataframe_result[OF alive] same old(4) have "h2 ! r2 = h1 ! r1" by simp
    with Inr p show ?thesis by simp
  qed
qed

lemma example_returns:
  "(case normalize_dataframe (init 0) [example_batch] of Inl e \<Rightarrow> False | Inr p \<Rightarrow> True)"
  by code_simp

theorem normalize_dataframe_keeps_input_witness:
  "\<exists>r h'. dataframe (init 0) < length [example_batch] \<and>
     normalize_dataframe (init 0) [example_batch] = Inr (r, h') \<and>
     h' ! dataframe (init 0) = [example_batch] ! dataframe (init 0) \<and> r \<noteq> dataframe (init 0)"
proof -
  have a: "dataframe (init 0) < length [example_batch]" by (simp add: init_def)
  from example_returns obtain r h' where
    b: "normalize_dataframe (init 0) [example_batch] = Inr (r, h')"
    by (cases "normalize_dataframe (init 0) [example_batch]") auto
  from normalize_dataframe_keeps_input[OF a b] a b show ?thesis by blast
qed

theorem normalize_dataframe_twice_witness:
  "\<exists>r1 h1 r2 h2. dataframe (init 0) < length [example_batch] \<and>
     normalize_dataframe (init 0) [example_batch] = Inr (r1, h1) \<and>
     normalize_dataframe (init 0) h1 = Inr (r2, h2) \<and> h2 ! r2 = h1 ! r1"
proof -
  have a: "dataframe (init 0) < length [example_batch]" by (simp add: init_def)
  from example_returns obtain r h' where
    b: "normalize_dataframe (init 0) [example_batch] = Inr (r, h')"
    by (cases "normalize_dataframe (init 0) [example_batch]") auto
  from normalize_dataframe_twice[OF a b] a b show ?thesis by blast
qed

section \<open>Store\<close>


lemma labels_concat_rows:
  "labels (concat_rows a b) = labels a @ filter (\<lambda>l. l \<notin> set (labels a)) (labels b)"
  by (simp add: concat_rows_def labels_def comp_def)

lemma wf_column_or_missing: "wf_frame df \<Longrightarrow> length (column_or_missing df l) = nrows df"
  by (auto simp: wf_frame_def column_or_missing_def list_all_iff split: option.splits
      dest!: map_of_SomeD)

lemma wf_concat_rows: "wf_frame a \<Longrightarrow> wf_frame b \<Longrightarrow> wf_frame (concat_rows a b)"
proof -
  assume a: "wf_frame a" and b: "wf_frame b"
  have "distinct (labels (concat_rows a b))"
    using a b by (auto simp: labels_concat_rows wf_frame_def)
  moreover have "list_all (\<lambda>(l, xs). length xs = nrows (concat_rows a b)) (cols (concat_rows a b))"
    using wf_column_or_missing[OF a] wf_column_or_missing[OF b]
    by (auto simp: concat_rows_def list_all_iff)
  ultimately show ?thesis by (simp add: wf_frame_def)
qed




text \<open>
  Claim C8 at a name that contains ".parquet" without ending in it: the test is
  \<^verbatim>\<open>".parquet" not in name\<close>, so nothing is appended and the target path does not end in
  the extension.
\<close>

theorem file_path_extension_inside_name:
  "file_path (str ''data'') (str ''listings.parquet.bak'') = str ''data/listings.parquet.bak'' \<and>
   \<not> suffix (str ''.parquet'') (file_path (str ''data'') (str ''listings.parquet.bak''))"
  by code_simp

lemma file_path_appends:
  "\<not> sublist (str ''.parquet'') name \<Longrightarrow>
     file_path dest name = path_join dest (name @ str ''.parquet'')"
  by (simp add: file_path_def)

lemma file_path_keeps:
  "suffix (str ''.parquet'') name \<Longrightarrow> file_path dest name = path_join dest name"
  by (simp add: file_path_def)

end
